theory Spec2Isabelle
  imports Main "HOL-Library.Word"
begin

section \<open>The backend handler of the router (handlers/backend\_handler.go)\<close>

text \<open>
  The file embeds \<^verbatim>\<open>handlers/backend_handler.go\<close>: the request rewriting hook that
  \<^verbatim>\<open>NewBackendHandler\<close> installs, \<^verbatim>\<open>populateViaHeader\<close>, the transport
  built by \<^verbatim>\<open>newBackendTransport\<close>, its \<^verbatim>\<open>RoundTrip\<close> and
  \<^verbatim>\<open>newErrorResponse\<close>. Values of Go's standard library appear as far as the
  handler looks at them.
\<close>

subsection \<open>Headers, strings and formatting\<close>

text \<open>
  \<^verbatim>\<open>http.Header\<close> is \<^verbatim>\<open>map[string][]string\<close>: a key is absent, or it is present
  with a list of values, which may be empty. Reading a key looks the map up as it is.
\<close>

type_synonym Header = "string \<rightharpoonup> string list"

text \<open>
  \<^verbatim>\<open>Header.Set(key, value)\<close> replaces the values of the key by the single value. Go
  first brings the key into its canonical form; the two keys this file passes,
  \<^verbatim>\<open>Via\<close> and \<^verbatim>\<open>User-Agent\<close>, are in that form already and are stored unchanged.
\<close>

definition Set :: "Header \<Rightarrow> string \<Rightarrow> string \<Rightarrow> Header" where
  "Set h key v = h(key \<mapsto> [v])"

text \<open>\<^verbatim>\<open>strings.Join(elems, sep)\<close>: no element gives the empty string, one element itself.\<close>

fun Join :: "string list \<Rightarrow> string \<Rightarrow> string" where
  "Join [] sep = []"
| "Join [x] sep = x"
| "Join (x # y # ys) sep = x @ sep @ Join (y # ys) sep"

text \<open>
  \<^verbatim>\<open>fmt.Sprintf("%d.%d", a, b)\<close>: both numbers in decimal, a minus sign before a
  negative one, a dot between them. \<^verbatim>\<open>ProtoMajor\<close> and \<^verbatim>\<open>ProtoMinor\<close> are Go
  \<^verbatim>\<open>int\<close>s; nothing is computed with them but their decimal form.
\<close>

fun digits :: "nat \<Rightarrow> string" where
  "digits n =
     (if n < 10 then [''0123456789'' ! n]
      else digits (n div 10) @ [''0123456789'' ! (n mod 10)])"

definition fmt_d :: "int \<Rightarrow> string" where
  "fmt_d i = (if i < 0 then CHR ''-'' # digits (nat (- i)) else digits (nat i))"

definition Sprintf_d_d :: "int \<Rightarrow> int \<Rightarrow> string" where
  "Sprintf_d_d a b = fmt_d a @ ''.'' @ fmt_d b"

subsection \<open>Requests, responses and bodies\<close>

text \<open>
  \<^verbatim>\<open>http.Request\<close> and \<^verbatim>\<open>http.Response\<close> share the protocol version and the header
  map. The fields the handler never names are the record's extension. The \<^verbatim>\<open>Host\<close>
  field of \<^verbatim>\<open>url.URL\<close> is \<open>URL_Host\<close> here, since \<open>Host\<close> is the request's field.
\<close>

record URL =
  Scheme :: string
  URL_Host :: string
  Path :: string
  RawQuery :: string

record message =
  ProtoMajor :: int
  ProtoMinor :: int
  Header :: Header

record Request = message +
  Method :: string
  URL :: URL
  Host :: string

text \<open>
  \<^verbatim>\<open>strings.Reader\<close>: the string and the reading position. \<^verbatim>\<open>Read\<close> with a buffer
  of \<open>n\<close> bytes returns the bytes copied, an error (\<^verbatim>\<open>io.EOF\<close> at the end of the
  string) and the reader moved on.
\<close>

record Reader =
  Reader_s :: string
  Reader_i :: nat

datatype io_error = EOF

definition NewReader :: "string \<Rightarrow> Reader" where
  "NewReader str = \<lparr>Reader_s = str, Reader_i = 0\<rparr>"

definition Read :: "Reader \<Rightarrow> nat \<Rightarrow> string \<times> io_error option \<times> Reader" where
  "Read r n =
     (if n = 0 then ([], None, r)
      else if Reader_i r \<ge> length (Reader_s r) then ([], Some EOF, r)
      else (let bs = take n (drop (Reader_i r) (Reader_s r))
            in (bs, None, r\<lparr>Reader_i := Reader_i r + length bs\<rparr>)))"

text \<open>
  \<^verbatim>\<open>ioutil.ReadAll\<close> reads buffer after buffer until \<^verbatim>\<open>io.EOF\<close>, which it does not
  report as an error. The loop ends because every read before the end moves the position.
\<close>

function ReadAll_from :: "Reader \<Rightarrow> string \<Rightarrow> (string \<times> io_error option) \<times> Reader" where
  "ReadAll_from r acc =
     (case Read r 512 of
        (bs, Some EOF, r') \<Rightarrow> ((acc @ bs, None), r')
      | (bs, None, r') \<Rightarrow> ReadAll_from r' (acc @ bs))"
  by pat_completeness auto
termination
proof (relation "measure (\<lambda>(r, acc). length (Reader_s r) - Reader_i r)")
  show "wf (measure (\<lambda>(r, acc). length (Reader_s r) - Reader_i r))"
    by simp
next
  fix r :: Reader and acc :: string and bs y r' e
  assume "(bs, y) = Read r 512" and "(e, r') = y" and "e = None"
  then have rd: "Read r 512 = (bs, None, r')"
    by simp
  then have "Reader_i r < length (Reader_s r)"
    by (auto simp: Read_def Let_def split: if_splits)
  moreover from rd have "Reader_i r' = Reader_i r + length (take 512 (drop (Reader_i r) (Reader_s r)))"
    and "Reader_s r' = Reader_s r"
    by (auto simp: Read_def Let_def split: if_splits)
  ultimately show "((r', acc @ bs), (r, acc)) \<in> measure (\<lambda>(r, acc). length (Reader_s r) - Reader_i r)"
    by (auto simp: min_def)
qed

definition ReadAll :: "Reader \<Rightarrow> (string \<times> io_error option) \<times> Reader" where
  "ReadAll r = ReadAll_from r []"

text \<open>
  \<^verbatim>\<open>ioutil.NopCloser(r)\<close> wraps a reader: reading is the reader's, \<^verbatim>\<open>Close\<close>
  does nothing and returns no error. A response body is an \<^verbatim>\<open>io.ReadCloser\<close>: the
  one this file builds, or the body \<^verbatim>\<open>http.Transport\<close> hands back, which the file
  never touches (\<open>'b\<close>). \<^verbatim>\<open>nil\<close> is \<open>None\<close>.
\<close>

datatype 'b ReadCloser = NopCloser Reader | TransportBody 'b

definition nopCloser_Close :: "Reader \<Rightarrow> io_error option \<times> Reader" where
  "nopCloser_Close r = (None, r)"

record 'b Response = message +
  StatusCode :: int
  Body :: "'b ReadCloser option"

subsection \<open>Errors of the wrapped round trip\<close>

text \<open>
  The Go \<^verbatim>\<open>error\<close> that \<^verbatim>\<open>http.Transport.RoundTrip\<close> returns, by what
  \<^verbatim>\<open>RoundTrip\<close> asks of it: whether it is a \<^verbatim>\<open>*net.OpError\<close>, and then what its
  \<^verbatim>\<open>Timeout()\<close> answers and what its \<^verbatim>\<open>Err\<close> field holds; and the text of
  \<^verbatim>\<open>Error()\<close>.
\<close>

datatype cause = ECONNREFUSED | OtherCause

datatype error = OpError bool cause string | OtherError string

fun Error :: "error \<Rightarrow> string" where
  "Error (OpError t c txt) = txt"
| "Error (OtherError txt) = txt"

subsection \<open>The regular expression\<close>

text \<open>
  A Go string is a sequence of bytes, and a \<open>char\<close> is one byte. The \<^verbatim>\<open>regexp\<close>
  package reads a text rune by rune, as \<^verbatim>\<open>utf8.DecodeRuneInString\<close> decodes it: a
  byte below \<^verbatim>\<open>0x80\<close> is a rune of its own; a well-formed sequence of two, three or
  four bytes is one rune; any other byte is the rune \<^verbatim>\<open>RuneError\<close> of width one.
  Over-long forms, surrogate halves and values above \<^verbatim>\<open>U+10FFFF\<close> are not well
  formed, which the bounds on the second byte express.
\<close>

type_synonym rune = nat

definition RuneError :: rune where
  "RuneError = 0xFFFD"

fun DecodeRuneInString :: "string \<Rightarrow> rune \<times> nat" where
  "DecodeRuneInString [] = (RuneError, 0)"
| "DecodeRuneInString (c0 # cs) =
     (let s0 = of_char c0 :: nat in
      if s0 < 0x80 then (s0, 1)
      else if s0 < 0xC2 \<or> 0xF4 < s0 then (RuneError, 1)
      else
        let sz = (if s0 < 0xE0 then 2 else if s0 < 0xF0 then 3 else 4) :: nat;
            lo = (if s0 = 0xE0 then 0xA0 else if s0 = 0xF0 then 0x90 else 0x80) :: nat;
            hi = (if s0 = 0xED then 0x9F else if s0 = 0xF4 then 0x8F else 0xBF) :: nat
        in if length (c0 # cs) < sz then (RuneError, 1)
           else
             let s1 = of_char (cs ! 0) :: nat in
             if s1 < lo \<or> hi < s1 then (RuneError, 1)
             else if sz \<le> 2 then ((s0 mod 32) * 64 + s1 mod 64, 2)
             else
               let s2 = of_char (cs ! 1) :: nat in
               if s2 < 0x80 \<or> 0xBF < s2 then (RuneError, 1)
               else if sz \<le> 3 then ((s0 mod 16) * 4096 + (s1 mod 64) * 64 + s2 mod 64, 3)
               else
                 let s3 = of_char (cs ! 2) :: nat in
                 if s3 < 0x80 \<or> 0xBF < s3 then (RuneError, 1)
                 else ((s0 mod 8) * 262144 + (s1 mod 64) * 4096 + (s2 mod 64) * 64 + s3 mod 64, 4))"

text \<open>The runes of a text, each decoded where the one before it ends.\<close>

fun runes :: "string \<Rightarrow> rune list" where
  "runes [] = []"
| "runes (c # cs) =
     fst (DecodeRuneInString (c # cs)) # runes (drop (snd (DecodeRuneInString (c # cs)) - 1) cs)"

text \<open>
  The pattern of \<^verbatim>\<open>invalidContentLengthRegexp\<close> is a sequence of single runes and of
  \<^verbatim>\<open>+\<close> repetitions of a class of runes. \<^verbatim>\<open>.\<close> is any rune but a newline,
  \<^verbatim>\<open>\d\<close> an ASCII digit. \<^verbatim>\<open>MatchString\<close> asks whether the pattern matches
  somewhere in the text; a match may start at any rune and need not reach the end.
\<close>

datatype atom = Lit rune | AnyCharNotNL | Digit

datatype item = Single atom | OneOrMore atom

type_synonym Regexp = "item list"

fun accepts :: "atom \<Rightarrow> rune \<Rightarrow> bool" where
  "accepts (Lit a) r = (r = a)"
| "accepts AnyCharNotNL r = (r \<noteq> 0x0A)"
| "accepts Digit r = (0x30 \<le> r \<and> r \<le> 0x39)"

fun match_here :: "Regexp \<Rightarrow> rune list \<Rightarrow> bool" where
  "match_here [] rs = True"
| "match_here (Single a # re) [] = False"
| "match_here (Single a # re) (r # rs) = (if accepts a r then match_here re rs else False)"
| "match_here (OneOrMore a # re) [] = False"
| "match_here (OneOrMore a # re) (r # rs) =
     (if accepts a r
      then (if match_here (OneOrMore a # re) rs then True else match_here re rs)
      else False)"

fun match_anywhere :: "Regexp \<Rightarrow> rune list \<Rightarrow> bool" where
  "match_anywhere re [] = match_here re []"
| "match_anywhere re (r # rs) = (if match_here re (r # rs) then True else match_anywhere re rs)"

definition MatchString :: "Regexp \<Rightarrow> string \<Rightarrow> bool" where
  "MatchString re str = match_anywhere re (runes str)"

text \<open>A stretch of the pattern that is plain ASCII text: each byte is the rune to find.\<close>

definition literal :: "string \<Rightarrow> Regexp" where
  "literal str = map (\<lambda>c. Single (Lit (of_char c))) str"

text \<open>\<^verbatim>\<open>regexp.MustCompile(`http: Request.ContentLength=\d+ with Body length \d+`)\<close>\<close>

definition invalidContentLengthRegexp :: Regexp where
  "invalidContentLengthRegexp =
     literal ''http: Request'' @ [Single AnyCharNotNL] @ literal ''ContentLength='' @
     [OneOrMore Digit] @ literal '' with Body length '' @ [OneOrMore Digit]"

subsection \<open>The logging collaborator\<close>

text \<open>
  The detail map is a \<^verbatim>\<open>map[string]interface{}\<close>; the values put into it are strings
  and ints.
\<close>

datatype detail = String_val string | Int_val int

type_synonym details = "string \<rightharpoonup> detail"

text \<open>
  Modelled from the spec: the package \<^verbatim>\<open>logger\<close> is not part of this file. Its
  \<^verbatim>\<open>Logger\<close> exposes one operation, \<^verbatim>\<open>LogFromBackendRequest(detailMap, request)\<close>,
  whose result nobody consumes. The logger is the list of the emissions it has received,
  oldest first.
\<close>

type_synonym 'a Logger = "(details \<times> 'a Request_scheme) list"

definition LogFromBackendRequest ::
  "'a Logger \<Rightarrow> details \<Rightarrow> 'a Request_scheme \<Rightarrow> 'a Logger" where
  "LogFromBackendRequest lg logDetails req = lg @ [(logDetails, req)]"

subsection \<open>populateViaHeader\<close>

definition populateViaHeader :: "Header \<Rightarrow> string \<Rightarrow> Header" where
  "populateViaHeader header httpVersion =
     (let via = httpVersion @ '' router'';
          via = (case header ''Via'' of
                   Some prior \<Rightarrow> Join prior '', '' @ '', '' @ via
                 | None \<Rightarrow> via)
      in Set header ''Via'' via)"

subsection \<open>newBackendTransport\<close>

text \<open>
  \<^verbatim>\<open>time.Duration\<close> is an \<^verbatim>\<open>int64\<close>. Of \<^verbatim>\<open>http.Transport\<close> the fields that
  \<^verbatim>\<open>newBackendTransport\<close> sets; \<^verbatim>\<open>&http.Transport{}\<close> has them \<^verbatim>\<open>nil\<close> and zero.
  \<^verbatim>\<open>net.DialTimeout\<close> is the library's and so a parameter; \<open>'c\<close> is what a dial
  returns.
\<close>

type_synonym Duration = "64 word"

record 'c Transport =
  Dial :: "(string \<Rightarrow> string \<Rightarrow> 'c) option"
  MaxIdleConnsPerHost :: int
  ResponseHeaderTimeout :: Duration

record ('a, 'c) backendTransport =
  wrapped :: "'c Transport"
  logger :: "'a Logger"

definition newBackendTransport ::
  "(string \<Rightarrow> string \<Rightarrow> Duration \<Rightarrow> 'c) \<Rightarrow> Duration \<Rightarrow> Duration \<Rightarrow> 'a Logger
     \<Rightarrow> ('a, 'c) backendTransport" where
  "newBackendTransport DialTimeout connectTimeout headerTimeout lg =
     (let transport =
            \<lparr>wrapped = \<lparr>Dial = None, MaxIdleConnsPerHost = 0, ResponseHeaderTimeout = 0\<rparr>,
             logger = lg\<rparr>;
          transport = transport\<lparr>wrapped := (wrapped transport)
            \<lparr>Dial := Some (\<lambda>network address. DialTimeout network address connectTimeout)\<rparr>\<rparr>;
          transport = transport\<lparr>wrapped := (wrapped transport)\<lparr>MaxIdleConnsPerHost := 20\<rparr>\<rparr>;
          transport = transport\<lparr>wrapped := (wrapped transport)
            \<lparr>ResponseHeaderTimeout := headerTimeout\<rparr>\<rparr>
      in transport)"

subsection \<open>newErrorResponse\<close>

text \<open>
  \<^verbatim>\<open>&http.Response{StatusCode: status}\<close> leaves every other field at its zero value:
  the header map is \<^verbatim>\<open>nil\<close>, which reads as the empty map.
\<close>

definition newErrorResponse :: "int \<Rightarrow> 'b Response" where
  "newErrorResponse status =
     (let resp = \<lparr>ProtoMajor = 0, ProtoMinor = 0, Header = Map.empty,
                  StatusCode = status, Body = None\<rparr>;
          resp = resp\<lparr>Body := Some (NopCloser (NewReader ''''))\<rparr>
      in resp)"

subsection \<open>RoundTrip\<close>

text \<open>
  The error branch of \<^verbatim>\<open>RoundTrip\<close>, from the creation of \<^verbatim>\<open>logDetails\<close> to
  the \<^verbatim>\<open>return\<close>: the detail map as the branch leaves it, and the results.
\<close>

definition intercept ::
  "error \<Rightarrow> details \<Rightarrow> details \<times> ('b Response option \<times> error option)" where
  "intercept err logDetails =
     (let by_text =
            (if Error err = ''net/http: timeout awaiting response headers''
             then (logDetails(''status'' \<mapsto> Int_val 504), (Some (newErrorResponse 504), None))
             else if MatchString invalidContentLengthRegexp (Error err)
             then (logDetails(''status'' \<mapsto> Int_val 400), (Some (newErrorResponse 400), None))
             else (logDetails, (Some (newErrorResponse 500), None)))
      in case err of
           OpError timeout opErr_Err txt \<Rightarrow>
             if timeout
             then (logDetails(''status'' \<mapsto> Int_val 504), (Some (newErrorResponse 504), None))
             else if opErr_Err = ECONNREFUSED
             then (logDetails(''status'' \<mapsto> Int_val 502), (Some (newErrorResponse 502), None))
             else by_text
         | OtherError txt \<Rightarrow> by_text)"

text \<open>
  \<^verbatim>\<open>bt.wrapped.RoundTrip(req)\<close> is the network: \<open>Transport_RoundTrip\<close> stands for
  it, and returns either an error or a response (whose header map \<^verbatim>\<open>http.Transport\<close>
  has allocated). The deferred \<^verbatim>\<open>LogFromBackendRequest\<close> runs when the function
  returns, on the map it was given when deferred, with the changes made since. The
  transport is returned with its logger.
\<close>

definition RoundTrip ::
  "('c Transport \<Rightarrow> 'a Request_scheme \<Rightarrow> error + 'b Response) \<Rightarrow> ('a, 'c) backendTransport
     \<Rightarrow> 'a Request_scheme \<Rightarrow> ('b Response option \<times> error option) \<times> ('a, 'c) backendTransport" where
  "RoundTrip Transport_RoundTrip bt req =
     (case Transport_RoundTrip (wrapped bt) req of
        Inr resp \<Rightarrow>
          ((Some (resp\<lparr>Header := populateViaHeader (Header resp)
                     (Sprintf_d_d (ProtoMajor resp) (ProtoMinor resp))\<rparr>), None), bt)
      | Inl err \<Rightarrow>
          (let logDetails = [''error'' \<mapsto> String_val (Error err), ''status'' \<mapsto> Int_val 500];
               (logDetails, results) = intercept err logDetails
           in (results, bt\<lparr>logger := LogFromBackendRequest (logger bt) logDetails req\<rparr>)))"

subsection \<open>NewBackendHandler\<close>

text \<open>
  \<^verbatim>\<open>httputil.NewSingleHostReverseProxy\<close> is the library's: it gives the proxy its
  first director, which rewrites the request's URL for the target. It is a parameter.
  \<^verbatim>\<open>NewBackendHandler\<close> returns the proxy with the transport and the new director.
\<close>

record ('a, 'c) ReverseProxy =
  Director :: "'a Request_scheme \<Rightarrow> 'a Request_scheme"
  Transport :: "('a, 'c) backendTransport"

definition NewBackendHandler ::
  "(URL \<Rightarrow> 'a Request_scheme \<Rightarrow> 'a Request_scheme) \<Rightarrow> (string \<Rightarrow> string \<Rightarrow> Duration \<Rightarrow> 'c)
     \<Rightarrow> URL \<Rightarrow> Duration \<Rightarrow> Duration \<Rightarrow> 'a Logger \<Rightarrow> ('a, 'c) ReverseProxy" where
  "NewBackendHandler NewSingleHostReverseProxy DialTimeout backendUrl connectTimeout
       headerTimeout lg =
     (let defaultDirector = NewSingleHostReverseProxy backendUrl
      in \<lparr>Director = (\<lambda>req.
             let req = defaultDirector req;
                 req = req\<lparr>Host := URL_Host backendUrl\<rparr>;
                 req = (if Header req ''User-Agent'' = None
                        then req\<lparr>Header := Set (Header req) ''User-Agent'' ''''\<rparr>
                        else req)
             in req\<lparr>Header := populateViaHeader (Header req)
                      (Sprintf_d_d (ProtoMajor req) (ProtoMinor req))\<rparr>),
          Transport = newBackendTransport DialTimeout connectTimeout headerTimeout lg\<rparr>)"

subsection \<open>The rules of the error branch, as the specification lists them\<close>

text \<open>
  A timeout: the error is a \<^verbatim>\<open>*net.OpError\<close> whose \<^verbatim>\<open>Timeout()\<close> holds. A refused
  connection: it is a \<^verbatim>\<open>*net.OpError\<close> whose \<^verbatim>\<open>Err\<close> is
  \<^verbatim>\<open>syscall.ECONNREFUSED\<close>.
\<close>

fun is_timeout :: "error \<Rightarrow> bool" where
  "is_timeout (OpError t c txt) = t"
| "is_timeout (OtherError txt) = False"

fun is_refused :: "error \<Rightarrow> bool" where
  "is_refused (OpError t c txt) = (c = ECONNREFUSED)"
| "is_refused (OtherError txt) = False"

definition first_matching_status :: "error \<Rightarrow> int" where
  "first_matching_status err =
     (if is_timeout err then 504
      else if is_refused err then 502
      else if Error err = ''net/http: timeout awaiting response headers'' then 504
      else if MatchString invalidContentLengthRegexp (Error err) then 400
      else 500)"

subsection \<open>Example values\<close>

definition example_request :: Request where
  "example_request =
     \<lparr>ProtoMajor = 1, ProtoMinor = 1, Header = [''Accept'' \<mapsto> [''*/*'']], Method = ''GET'',
      URL = \<lparr>Scheme = ''http'', URL_Host = ''www.example.com'', Path = ''/foo'', RawQuery = ''''\<rparr>,
      Host = ''www.example.com''\<rparr>"

definition example_backendUrl :: URL where
  "example_backendUrl =
     \<lparr>Scheme = ''http'', URL_Host = ''127.0.0.1:3160'', Path = ''/'', RawQuery = ''''\<rparr>"

text \<open>A first director that points the request's URL at the target.\<close>

definition example_director :: "URL \<Rightarrow> Request \<Rightarrow> Request" where
  "example_director target req =
     req\<lparr>URL := (URL req)\<lparr>Scheme := Scheme target, URL_Host := URL_Host target\<rparr>\<rparr>"

definition example_response :: "unit Response" where
  "example_response =
     \<lparr>ProtoMajor = 1, ProtoMinor = 0, Header = [''Via'' \<mapsto> [''1.0 fred'']],
      StatusCode = 200, Body = Some (TransportBody ())\<rparr>"

definition example_transport :: "(unit, unit) backendTransport" where
  "example_transport = newBackendTransport (\<lambda>network address timeout. ()) 1000 2000 []"

text \<open>A network on which every round trip fails with the error, and one that answers.\<close>

definition failing :: "error \<Rightarrow> unit Transport \<Rightarrow> Request \<Rightarrow> error + unit Response" where
  "failing err t req = Inl err"

definition answering ::
  "unit Response \<Rightarrow> unit Transport \<Rightarrow> Request \<Rightarrow> error + unit Response" where
  "answering resp t req = Inr resp"

section \<open>Properties\<close>

subsection \<open>Auxiliary facts\<close>

lemma populateViaHeader_other: "k \<noteq> ''Via'' \<Longrightarrow> populateViaHeader h v k = h k"
  by (simp add: populateViaHeader_def Let_def Set_def)

lemma StatusCode_newErrorResponse: "StatusCode (newErrorResponse status) = status"
  by (simp add: newErrorResponse_def Let_def)

lemma intercept_results:
  "intercept err d =
     ((if first_matching_status err = 500 then d
       else d(''status'' \<mapsto> Int_val (first_matching_status err))),
      (Some (newErrorResponse (first_matching_status err)), None))"
  by (cases err) (simp_all add: intercept_def first_matching_status_def Let_def)

lemma RoundTrip_Inl:
  "Transport_RoundTrip (wrapped bt) req = Inl err \<Longrightarrow>
   RoundTrip Transport_RoundTrip bt req =
     ((Some (newErrorResponse (first_matching_status err)), None),
      bt\<lparr>logger := logger bt @
        [([''error'' \<mapsto> String_val (Error err),
           ''status'' \<mapsto> Int_val (first_matching_status err)], req)]\<rparr>)"
  by (auto simp: RoundTrip_def intercept_results LogFromBackendRequest_def Let_def)

lemma RoundTrip_Inr:
  "Transport_RoundTrip (wrapped bt) req = Inr resp \<Longrightarrow>
   RoundTrip Transport_RoundTrip bt req =
     ((Some (resp\<lparr>Header := populateViaHeader (Header resp)
                (Sprintf_d_d (ProtoMajor resp) (ProtoMinor resp))\<rparr>), None), bt)"
  by (simp add: RoundTrip_def)

lemma ReadAll_at_end:
  "Reader_i r \<ge> length (Reader_s r) \<Longrightarrow> ReadAll r = (([], None), r)"
  by (simp add: ReadAll_def Read_def)

subsection \<open>What the pattern matches\<close>

text \<open>
  The matcher finds exactly the texts whose runes contain \<^verbatim>\<open>http: Request\<close>, one
  rune that is not a newline, \<^verbatim>\<open>ContentLength=\<close>, one or more digits,
  \<^verbatim>\<open> with Body length \<close> and one or more digits.
\<close>

lemma match_here_Single:
  "match_here (Single a # re) rs \<longleftrightarrow> (\<exists>r rs'. rs = r # rs' \<and> accepts a r \<and> match_here re rs')"
  by (cases rs) auto

lemma match_here_OneOrMore_Cons:
  "match_here (OneOrMore a # re) (r # rs) \<longleftrightarrow>
     accepts a r \<and> (match_here (OneOrMore a # re) rs \<or> match_here re rs)"
  by simp

lemma match_anywhere_Cons:
  "match_anywhere re (r # rs) \<longleftrightarrow> match_here re (r # rs) \<or> match_anywhere re rs"
  by simp

lemma match_here_literal:
  "match_here (literal t @ re) rs \<longleftrightarrow> (\<exists>rest. rs = map of_char t @ rest \<and> match_here re rest)"
proof (induction t arbitrary: rs)
  case Nil
  then show ?case by (simp add: literal_def)
next
  case (Cons a t)
  have "match_here (literal (a # t) @ re) rs \<longleftrightarrow>
      (\<exists>rs'. rs = of_char a # rs' \<and> match_here (literal t @ re) rs')"
    by (cases rs) (auto simp: literal_def)
  with Cons.IH show ?case by auto
qed

lemma match_here_OneOrMore:
  "match_here (OneOrMore a # re) rs \<longleftrightarrow>
     (\<exists>ds rest. rs = ds @ rest \<and> ds \<noteq> [] \<and> list_all (accepts a) ds \<and> match_here re rest)"
proof (induction rs)
  case Nil
  then show ?case by simp
next
  case (Cons c cs)
  show ?case
  proof
    assume "match_here (OneOrMore a # re) (c # cs)"
    then have acc: "accepts a c" and alt: "match_here (OneOrMore a # re) cs \<or> match_here re cs"
      unfolding match_here_OneOrMore_Cons by simp_all
    from alt show "\<exists>ds rest. c # cs = ds @ rest \<and> ds \<noteq> [] \<and> list_all (accepts a) ds \<and> match_here re rest"
    proof
      assume "match_here (OneOrMore a # re) cs"
      with Cons.IH obtain ds rest where "cs = ds @ rest" "list_all (accepts a) ds" "match_here re rest"
        by blast
      with acc have "c # cs = (c # ds) @ rest \<and> c # ds \<noteq> [] \<and> list_all (accepts a) (c # ds) \<and>
          match_here re rest"
        by simp
      then show ?thesis by blast
    next
      assume "match_here re cs"
      with acc have "c # cs = [c] @ cs \<and> [c] \<noteq> [] \<and> list_all (accepts a) [c] \<and> match_here re cs"
        by simp
      then show ?thesis by blast
    qed
  next
    assume "\<exists>ds rest. c # cs = ds @ rest \<and> ds \<noteq> [] \<and> list_all (accepts a) ds \<and> match_here re rest"
    then obtain ds rest where eq: "c # cs = ds @ rest" and ne: "ds \<noteq> []"
      and all: "list_all (accepts a) ds" and m: "match_here re rest"
      by blast
    from ne obtain d ds' where ds: "ds = d # ds'"
      by (cases ds) auto
    with eq all have c: "accepts a c" and cs: "cs = ds' @ rest" and all': "list_all (accepts a) ds'"
      by auto
    show "match_here (OneOrMore a # re) (c # cs)"
    proof (cases "ds' = []")
      case True
      with c cs m show ?thesis by simp
    next
      case False
      with cs all' m Cons.IH have "match_here (OneOrMore a # re) cs"
        by blast
      with c show ?thesis by simp
    qed
  qed
qed

lemma match_anywhere_iff:
  "match_anywhere re rs \<longleftrightarrow> (\<exists>pre rest. rs = pre @ rest \<and> match_here re rest)"
proof (induction rs)
  case Nil
  then show ?case by simp
next
  case (Cons c cs)
  have "(\<exists>pre rest. c # cs = pre @ rest \<and> match_here re rest) \<longleftrightarrow>
      match_here re (c # cs) \<or> (\<exists>pre rest. cs = pre @ rest \<and> match_here re rest)"
    (is "?L \<longleftrightarrow> ?R")
  proof
    assume ?L
    then obtain pre rest where eq: "c # cs = pre @ rest" and m: "match_here re rest"
      by blast
    show ?R
    proof (cases pre)
      case Nil
      with eq m show ?thesis by simp
    next
      case (Cons p pre')
      with eq have "cs = pre' @ rest" by simp
      with m show ?thesis by blast
    qed
  next
    assume ?R
    then show ?L
    proof
      assume "match_here re (c # cs)"
      then have "c # cs = [] @ (c # cs) \<and> match_here re (c # cs)" by simp
      then show ?L by blast
    next
      assume "\<exists>pre rest. cs = pre @ rest \<and> match_here re rest"
      then obtain pre rest where "cs = pre @ rest" "match_here re rest" by blast
      then have "c # cs = (c # pre) @ rest \<and> match_here re rest" by simp
      then show ?L by blast
    qed
  qed
  with Cons.IH show ?case unfolding match_anywhere_Cons by simp
qed

lemma MatchString_invalidContentLengthRegexp:
  "MatchString invalidContentLengthRegexp str \<longleftrightarrow>
     (\<exists>pre c d1 d2 post.
        runes str = pre @ map of_char ''http: Request'' @ [c] @ map of_char ''ContentLength='' @ d1 @
          map of_char '' with Body length '' @ d2 @ post \<and>
        c \<noteq> 0x0A \<and>
        d1 \<noteq> [] \<and> list_all (\<lambda>d. 0x30 \<le> d \<and> d \<le> 0x39) d1 \<and>
        d2 \<noteq> [] \<and> list_all (\<lambda>d. 0x30 \<le> d \<and> d \<le> 0x39) d2)"
proof -
  have dig: "accepts Digit = (\<lambda>d. 0x30 \<le> d \<and> d \<le> 0x39)"
    by (rule ext) simp
  have "MatchString invalidContentLengthRegexp str \<longleftrightarrow>
      (\<exists>pre r0. runes str = pre @ r0 \<and>
        (\<exists>r1. r0 = map of_char ''http: Request'' @ r1 \<and>
          (\<exists>c r2. r1 = c # r2 \<and> accepts AnyCharNotNL c \<and>
            (\<exists>r3. r2 = map of_char ''ContentLength='' @ r3 \<and>
              (\<exists>d1 r4. r3 = d1 @ r4 \<and> d1 \<noteq> [] \<and> list_all (accepts Digit) d1 \<and>
                (\<exists>r5. r4 = map of_char '' with Body length '' @ r5 \<and>
                  (\<exists>d2 post. r5 = d2 @ post \<and> d2 \<noteq> [] \<and> list_all (accepts Digit) d2)))))))"
    unfolding MatchString_def invalidContentLengthRegexp_def match_anywhere_iff match_here_literal
      append_Cons append_Nil match_here_Single match_here_OneOrMore
    by simp
  also have "\<dots> \<longleftrightarrow>
     (\<exists>pre c d1 d2 post.
        runes str = pre @ map of_char ''http: Request'' @ [c] @ map of_char ''ContentLength='' @ d1 @
          map of_char '' with Body length '' @ d2 @ post \<and>
        c \<noteq> 0x0A \<and>
        d1 \<noteq> [] \<and> list_all (\<lambda>d. 0x30 \<le> d \<and> d \<le> 0x39) d1 \<and>
        d2 \<noteq> [] \<and> list_all (\<lambda>d. 0x30 \<le> d \<and> d \<le> 0x39) d2)"
    unfolding dig by (simp only: accepts.simps append_Cons append_Nil append_assoc) fastforce
  finally show ?thesis .
qed

subsection \<open>The status of a failed round trip\<close>

text \<open>
  C1. When the wrapped round trip returns an error, \<^verbatim>\<open>RoundTrip\<close> returns a response
  and no error, and the status of the response is given by the first rule that matches,
  in this order: a timeout gives 504; else a refused connection gives 502; else the text
  \<^verbatim>\<open>net/http: timeout awaiting response headers\<close> gives 504; else a text that the
  content-length pattern matches gives 400; else the status is 500. The pattern reads the
  text rune by rune: one character of several bytes between \<^verbatim>\<open>Request\<close> and
  \<^verbatim>\<open>ContentLength\<close> is matched by the dot, a newline there is not.
\<close>

theorem RoundTrip_error_status:
  assumes "Transport_RoundTrip (wrapped bt) req = Inl err"
  shows "\<exists>resp. fst (RoundTrip Transport_RoundTrip bt req) = (Some resp, None) \<and>
     StatusCode resp =
       (if is_timeout err then 504
        else if is_refused err then 502
        else if Error err = ''net/http: timeout awaiting response headers'' then 504
        else if MatchString invalidContentLengthRegexp (Error err) then 400
        else 500)"
  using assms
  by (simp add: RoundTrip_Inl StatusCode_newErrorResponse first_matching_status_def)

theorem RoundTrip_error_status_witness:
  "(\<exists>resp :: unit Response.
      fst (RoundTrip (failing (OpError True ECONNREFUSED ''dial tcp 127.0.0.1:3160: i/o timeout''))
        example_transport example_request) = (Some resp, None) \<and> StatusCode resp = 504) \<and>
   (\<exists>resp :: unit Response.
      fst (RoundTrip (failing (OpError False ECONNREFUSED ''dial tcp 127.0.0.1:3160: connection refused''))
        example_transport example_request) = (Some resp, None) \<and> StatusCode resp = 502) \<and>
   (\<exists>resp :: unit Response.
      fst (RoundTrip (failing (OpError False OtherCause ''net/http: timeout awaiting response headers''))
        example_transport example_request) = (Some resp, None) \<and> StatusCode resp = 504) \<and>
   (\<exists>resp :: unit Response.
      fst (RoundTrip (failing (OtherError ''http: Request.ContentLength=5 with Body length 3''))
        example_transport example_request) = (Some resp, None) \<and> StatusCode resp = 400) \<and>
   (\<exists>resp :: unit Response.
      fst (RoundTrip (failing (OtherError (''http: Request'' @ [CHR 0xE2, CHR 0x82, CHR 0xAC] @
          ''ContentLength=5 with Body length 3'')))
        example_transport example_request) = (Some resp, None) \<and> StatusCode resp = 400) \<and>
   (\<exists>resp :: unit Response.
      fst (RoundTrip (failing (OtherError (''http: Request'' @ [CHR 0x0A] @
          ''ContentLength=5 with Body length 3'')))
        example_transport example_request) = (Some resp, None) \<and> StatusCode resp = 500) \<and>
   (\<exists>resp :: unit Response.
      fst (RoundTrip (failing (OtherError ''dial tcp: lookup backend.invalid: no such host''))
        example_transport example_request) = (Some resp, None) \<and> StatusCode resp = 500)"
  using
    RoundTrip_error_status [of "failing (OpError True ECONNREFUSED ''dial tcp 127.0.0.1:3160: i/o timeout'')"
      example_transport example_request "OpError True ECONNREFUSED ''dial tcp 127.0.0.1:3160: i/o timeout''"]
    RoundTrip_error_status [of "failing (OpError False ECONNREFUSED ''dial tcp 127.0.0.1:3160: connection refused'')"
      example_transport example_request "OpError False ECONNREFUSED ''dial tcp 127.0.0.1:3160: connection refused''"]
    RoundTrip_error_status [of "failing (OpError False OtherCause ''net/http: timeout awaiting response headers'')"
      example_transport example_request "OpError False OtherCause ''net/http: timeout awaiting response headers''"]
    RoundTrip_error_status [of "failing (OtherError ''http: Request.ContentLength=5 with Body length 3'')"
      example_transport example_request "OtherError ''http: Request.ContentLength=5 with Body length 3''"]
    RoundTrip_error_status [of "failing (OtherError (''http: Request'' @ [CHR 0xE2, CHR 0x82, CHR 0xAC] @
          ''ContentLength=5 with Body length 3''))"
      example_transport example_request "OtherError (''http: Request'' @ [CHR 0xE2, CHR 0x82, CHR 0xAC] @
          ''ContentLength=5 with Body length 3'')"]
    RoundTrip_error_status [of "failing (OtherError (''http: Request'' @ [CHR 0x0A] @
          ''ContentLength=5 with Body length 3''))"
      example_transport example_request "OtherError (''http: Request'' @ [CHR 0x0A] @
          ''ContentLength=5 with Body length 3'')"]
    RoundTrip_error_status [of "failing (OtherError ''dial tcp: lookup backend.invalid: no such host'')"
      example_transport example_request "OtherError ''dial tcp: lookup backend.invalid: no such host''"]
  by (simp add: failing_def MatchString_def invalidContentLengthRegexp_def literal_def Let_def)

subsection \<open>Every round trip returns a response\<close>

text \<open>
  C2. Whatever the request and whatever the wrapped round trip returns, \<^verbatim>\<open>RoundTrip\<close>
  returns a response that is not \<^verbatim>\<open>nil\<close> and an error that is \<^verbatim>\<open>nil\<close>.
\<close>

theorem RoundTrip_returns:
  "\<exists>resp. fst (RoundTrip Transport_RoundTrip bt req) = (Some resp, None)"
proof (cases "Transport_RoundTrip (wrapped bt) req")
  case (Inl err)
  then show ?thesis by (simp add: RoundTrip_Inl)
next
  case (Inr resp)
  then show ?thesis by (simp add: RoundTrip_Inr)
qed

theorem RoundTrip_returns_witness:
  "(\<exists>resp :: unit Response.
      fst (RoundTrip (failing (OtherError ''EOF'')) example_transport example_request) =
        (Some resp, None)) \<and>
   (\<exists>resp :: unit Response.
      fst (RoundTrip (answering example_response) example_transport example_request) =
        (Some resp, None))"
  using RoundTrip_returns [of "failing (OtherError ''EOF'')" example_transport example_request]
    RoundTrip_returns [of "answering example_response" example_transport example_request]
  by simp

subsection \<open>What is logged\<close>

text \<open>
  C3. When the wrapped round trip fails, the logger receives exactly one more emission: it
  is made for the request, its detail map holds the text of the error under \<^verbatim>\<open>error\<close>
  and, under \<^verbatim>\<open>status\<close>, the status of the response that is returned. When the
  wrapped round trip succeeds, the logger receives nothing.
\<close>

theorem RoundTrip_log:
  "(\<forall>err. Transport_RoundTrip (wrapped bt) req = Inl err \<longrightarrow>
      (\<exists>d resp. logger (snd (RoundTrip Transport_RoundTrip bt req)) = logger bt @ [(d, req)] \<and>
         fst (RoundTrip Transport_RoundTrip bt req) = (Some resp, None) \<and>
         d ''error'' = Some (String_val (Error err)) \<and>
         d ''status'' = Some (Int_val (StatusCode resp)))) \<and>
   (\<forall>resp. Transport_RoundTrip (wrapped bt) req = Inr resp \<longrightarrow>
      logger (snd (RoundTrip Transport_RoundTrip bt req)) = logger bt)"
proof (intro conjI allI impI)
  fix err
  assume "Transport_RoundTrip (wrapped bt) req = Inl err"
  then show "\<exists>d resp. logger (snd (RoundTrip Transport_RoundTrip bt req)) = logger bt @ [(d, req)] \<and>
         fst (RoundTrip Transport_RoundTrip bt req) = (Some resp, None) \<and>
         d ''error'' = Some (String_val (Error err)) \<and>
         d ''status'' = Some (Int_val (StatusCode resp))"
    by (simp add: RoundTrip_Inl StatusCode_newErrorResponse)
next
  fix resp
  assume "Transport_RoundTrip (wrapped bt) req = Inr resp"
  then show "logger (snd (RoundTrip Transport_RoundTrip bt req)) = logger bt"
    by (simp add: RoundTrip_Inr)
qed

theorem RoundTrip_log_witness:
  "(\<exists>d. \<exists>resp :: unit Response.
      logger (snd (RoundTrip (failing (OpError False ECONNREFUSED ''connection refused''))
        example_transport example_request)) = logger example_transport @ [(d, example_request)] \<and>
      fst (RoundTrip (failing (OpError False ECONNREFUSED ''connection refused''))
        example_transport example_request) = (Some resp, None) \<and>
      d ''error'' = Some (String_val ''connection refused'') \<and>
      d ''status'' = Some (Int_val (StatusCode resp))) \<and>
   logger (snd (RoundTrip (answering example_response) example_transport example_request)) =
     logger example_transport"
  using RoundTrip_log [of "failing (OpError False ECONNREFUSED ''connection refused'')"
      example_transport example_request]
    RoundTrip_log [of "answering example_response" example_transport example_request]
  by (simp add: failing_def answering_def)

subsection \<open>The Via header\<close>

text \<open>
  C4, as the code has it. \<^verbatim>\<open>populateViaHeader\<close> with version string \<open>v\<close> sets
  \<^verbatim>\<open>Via\<close> to the single value \<open>v router\<close> when the map has no \<^verbatim>\<open>Via\<close> key, and
  to the prior values joined by a comma and a space, followed by a comma, a space and
  \<open>v router\<close>, when the key is present, whatever its list of values.
\<close>

theorem populateViaHeader_Via:
  "(header ''Via'' = None \<longrightarrow> populateViaHeader header v ''Via'' = Some [v @ '' router'']) \<and>
   (\<forall>prior. header ''Via'' = Some prior \<longrightarrow>
      populateViaHeader header v ''Via'' = Some [Join prior '', '' @ '', '' @ v @ '' router''])"
  by (simp add: populateViaHeader_def Let_def Set_def)

theorem populateViaHeader_Via_witness:
  "populateViaHeader Map.empty ''1.1'' ''Via'' = Some [''1.1 router''] \<and>
   populateViaHeader [''Via'' \<mapsto> [''1.0 fred'', ''1.1 barney'']] ''1.1'' ''Via'' =
     Some [''1.0 fred, 1.1 barney, 1.1 router'']"
  using populateViaHeader_Via [of Map.empty "''1.1''"]
    populateViaHeader_Via [of "[''Via'' \<mapsto> [''1.0 fred'', ''1.1 barney'']]" "''1.1''"]
  by simp

text \<open>
  C4 as it is written fails on a map whose \<^verbatim>\<open>Via\<close> key is present with no values: no
  prior value exists there, and the header is not set to \<open>1.1 router\<close>.
\<close>

theorem populateViaHeader_no_values_counterexample:
  "(case [''Via'' \<mapsto> []] ''Via'' of None \<Rightarrow> [] | Some vs \<Rightarrow> vs) = ([] :: string list) \<and>
   populateViaHeader [''Via'' \<mapsto> []] ''1.1'' ''Via'' \<noteq> Some [''1.1 router'']"
  by (simp add: populateViaHeader_def Let_def Set_def)

text \<open>
  C10. When the \<^verbatim>\<open>Via\<close> key is present with an empty list of values,
  \<^verbatim>\<open>populateViaHeader\<close> with version string \<open>v\<close> sets \<^verbatim>\<open>Via\<close> to a comma and a
  space followed by \<open>v router\<close>, which is not \<open>v router\<close>.
\<close>

theorem populateViaHeader_empty_list:
  "header ''Via'' = Some [] \<Longrightarrow>
     populateViaHeader header v ''Via'' = Some ['', '' @ v @ '' router''] \<and>
     populateViaHeader header v ''Via'' \<noteq> Some [v @ '' router'']"
  by (simp add: populateViaHeader_def Let_def Set_def)

theorem populateViaHeader_empty_list_witness:
  "populateViaHeader [''Via'' \<mapsto> []] ''1.1'' ''Via'' = Some ['', 1.1 router'']"
  using populateViaHeader_empty_list [of "[''Via'' \<mapsto> []]" "''1.1''"]
  by simp

subsection \<open>The director\<close>

text \<open>
  C5. After the director of the handler has run, the \<^verbatim>\<open>Host\<close> field of the request is
  the host of the backend URL, whatever the request was.
\<close>

theorem Director_Host:
  "Host (Director (NewBackendHandler nsh dt backendUrl ct ht lg) req) = URL_Host backendUrl"
  by (simp add: NewBackendHandler_def Let_def)

theorem Director_Host_witness:
  "Host (Director (NewBackendHandler example_director (\<lambda>network address timeout. ())
     example_backendUrl 1000 2000 []) example_request) = ''127.0.0.1:3160''"
  using Director_Host [of example_director "\<lambda>network address timeout. ()" example_backendUrl
    1000 2000 "[]" example_request]
  by (simp add: example_backendUrl_def)

text \<open>
  C6. The request reaches the added step as the first director (\<open>nsh backendUrl\<close>) hands
  it on. When it has no \<^verbatim>\<open>User-Agent\<close> key there, the key is present afterwards with
  the empty string as its one value. When it has the key, with whatever values, the
  values are afterwards what they were.
\<close>

theorem Director_User_Agent:
  "(Header (nsh backendUrl req) ''User-Agent'' = None \<longrightarrow>
      Header (Director (NewBackendHandler nsh dt backendUrl ct ht lg) req) ''User-Agent'' =
        Some ['''']) \<and>
   (\<forall>vs. Header (nsh backendUrl req) ''User-Agent'' = Some vs \<longrightarrow>
      Header (Director (NewBackendHandler nsh dt backendUrl ct ht lg) req) ''User-Agent'' =
        Some vs)"
  by (simp add: NewBackendHandler_def Let_def populateViaHeader_other Set_def)

theorem Director_User_Agent_witness:
  "Header (Director (NewBackendHandler example_director (\<lambda>network address timeout. ())
     example_backendUrl 1000 2000 []) example_request) ''User-Agent'' = Some [''''] \<and>
   Header (Director (NewBackendHandler example_director (\<lambda>network address timeout. ())
     example_backendUrl 1000 2000 [])
       (example_request\<lparr>Header := [''User-Agent'' \<mapsto> ['''']]\<rparr>)) ''User-Agent'' = Some [''''] \<and>
   Header (Director (NewBackendHandler example_director (\<lambda>network address timeout. ())
     example_backendUrl 1000 2000 [])
       (example_request\<lparr>Header := [''User-Agent'' \<mapsto> [''curl/7.30'', ''x'']]\<rparr>)) ''User-Agent'' =
     Some [''curl/7.30'', ''x'']"
  using Director_User_Agent [of example_director example_backendUrl example_request
      "\<lambda>network address timeout. ()" 1000 2000 "[]"]
    Director_User_Agent [of example_director example_backendUrl
      "example_request\<lparr>Header := [''User-Agent'' \<mapsto> ['''']]\<rparr>"
      "\<lambda>network address timeout. ()" 1000 2000 "[]"]
    Director_User_Agent [of example_director example_backendUrl
      "example_request\<lparr>Header := [''User-Agent'' \<mapsto> [''curl/7.30'', ''x'']]\<rparr>"
      "\<lambda>network address timeout. ()" 1000 2000 "[]"]
  by (simp add: example_director_def example_request_def)

text \<open>
  C9. Compared with the request as the first director hands it on, the director of the
  handler leaves every header key other than \<^verbatim>\<open>User-Agent\<close> and \<^verbatim>\<open>Via\<close> with its
  values, leaves \<^verbatim>\<open>User-Agent\<close> with its values when the key was present, and leaves
  every field of the request other than \<^verbatim>\<open>Host\<close> and the header map as it was.
\<close>

theorem Director_frame:
  "(\<forall>k. k \<noteq> ''User-Agent'' \<and> k \<noteq> ''Via'' \<longrightarrow>
      Header (Director (NewBackendHandler nsh dt backendUrl ct ht lg) req) k =
      Header (nsh backendUrl req) k) \<and>
   (Header (nsh backendUrl req) ''User-Agent'' \<noteq> None \<longrightarrow>
      Header (Director (NewBackendHandler nsh dt backendUrl ct ht lg) req) ''User-Agent'' =
      Header (nsh backendUrl req) ''User-Agent'') \<and>
   ProtoMajor (Director (NewBackendHandler nsh dt backendUrl ct ht lg) req) =
     ProtoMajor (nsh backendUrl req) \<and>
   ProtoMinor (Director (NewBackendHandler nsh dt backendUrl ct ht lg) req) =
     ProtoMinor (nsh backendUrl req) \<and>
   Method (Director (NewBackendHandler nsh dt backendUrl ct ht lg) req) =
     Method (nsh backendUrl req) \<and>
   URL (Director (NewBackendHandler nsh dt backendUrl ct ht lg) req) = URL (nsh backendUrl req) \<and>
   Request.more (Director (NewBackendHandler nsh dt backendUrl ct ht lg) req) =
     Request.more (nsh backendUrl req)"
  by (auto simp: NewBackendHandler_def Let_def populateViaHeader_other Set_def)

theorem Director_frame_witness:
  "Header (Director (NewBackendHandler example_director (\<lambda>network address timeout. ())
     example_backendUrl 1000 2000 []) example_request) ''Accept'' = Some [''*/*''] \<and>
   Method (Director (NewBackendHandler example_director (\<lambda>network address timeout. ())
     example_backendUrl 1000 2000 []) example_request) = ''GET''"
  using Director_frame [of example_director "\<lambda>network address timeout. ()" example_backendUrl
    1000 2000 "[]" example_request]
  by (simp add: example_director_def example_request_def)

subsection \<open>The synthesized response\<close>

text \<open>
  C7. For every status, \<^verbatim>\<open>newErrorResponse\<close> returns a response with that status and
  with no header. Its body is not \<^verbatim>\<open>nil\<close>: it is a \<^verbatim>\<open>NopCloser\<close> whose reader
  gives no byte to a read with any buffer and to \<^verbatim>\<open>ReadAll\<close>, the latter without an
  error, and whose \<^verbatim>\<open>Close\<close> returns no error and changes nothing.
\<close>

theorem newErrorResponse_empty:
  "StatusCode (newErrorResponse status) = status \<and>
   Header (newErrorResponse status) = Map.empty \<and>
   (\<exists>r. Body (newErrorResponse status) = Some (NopCloser r) \<and>
      (\<forall>n. fst (Read r n) = []) \<and>
      fst (ReadAll r) = ([], None) \<and>
      nopCloser_Close r = (None, r))"
  by (simp add: newErrorResponse_def Let_def NewReader_def Read_def ReadAll_at_end
      nopCloser_Close_def)

theorem newErrorResponse_empty_witness:
  "StatusCode (newErrorResponse 502 :: unit Response) = 502 \<and>
   Header (newErrorResponse 502 :: unit Response) = Map.empty \<and>
   (\<exists>r. Body (newErrorResponse 502 :: unit Response) = Some (NopCloser r) \<and>
      fst (Read r 512) = [] \<and> fst (ReadAll r) = ([], None) \<and> nopCloser_Close r = (None, r))"
  using newErrorResponse_empty [of 502, where 'a = unit]
  by auto

subsection \<open>The settings of the transport\<close>

text \<open>
  C8. For every connect timeout and header timeout, the wrapped transport that
  \<^verbatim>\<open>newBackendTransport\<close> builds keeps at most 20 idle connections per host, has the
  header timeout as its response header timeout, and has a dial function that, for every
  network and address, is \<^verbatim>\<open>net.DialTimeout\<close> with the connect timeout.
\<close>

theorem newBackendTransport_settings:
  "MaxIdleConnsPerHost (wrapped (newBackendTransport DialTimeout connectTimeout headerTimeout lg)) = 20 \<and>
   ResponseHeaderTimeout (wrapped (newBackendTransport DialTimeout connectTimeout headerTimeout lg)) =
     headerTimeout \<and>
   (\<exists>dial. Dial (wrapped (newBackendTransport DialTimeout connectTimeout headerTimeout lg)) = Some dial \<and>
      (\<forall>network address. dial network address = DialTimeout network address connectTimeout))"
  by (simp add: newBackendTransport_def Let_def)

theorem newBackendTransport_settings_witness:
  "MaxIdleConnsPerHost (wrapped example_transport) = 20 \<and>
   ResponseHeaderTimeout (wrapped example_transport) = 2000 \<and>
   (\<exists>dial. Dial (wrapped example_transport) = Some dial \<and>
      dial ''tcp'' ''127.0.0.1:3160'' = ())"
  using newBackendTransport_settings [of "\<lambda>network address timeout. ()" 1000 2000 "[] :: unit Logger"]
  by (simp add: example_transport_def)

end
